theory Spec2Isabelle
  imports Main "HOL-Library.Word" "HOL-Library.Sublist"
begin

section \<open>Basic types of the FluxAggregator contract layer\<close>

text \<open>
  The Go file \<open>core/services/eth/contracts/FluxAggregator.go\<close> works with go-ethereum's
  \<open>common.Address\<close> (20 bytes) and \<open>common.Hash\<close> (32 bytes), with Go's fixed-width
  unsigned integers, and with \<open>*big.Int\<close>, a pointer that is either nil or an unbounded
  integer.
\<close>

type_synonym Address = "160 word"
type_synonym Hash = "256 word"
type_synonym uint8 = "8 word"
type_synonym uint32 = "32 word"
type_synonym uint64 = "64 word"
type_synonym uint = "64 word" \<comment> \<open>Go's \<open>uint\<close> on a 64-bit platform\<close>
type_synonym byte = "8 word"
type_synonym bigInt = "int option"

text \<open>
  A Go slice is either nil or a made slice holding elements. \<open>GetOracles\<close> returns
  \<open>make([]common.Address, 0)\<close> on one path and \<open>nil\<close> on the other, so the two are
  kept apart.
\<close>

datatype 'a slice = NilSlice | Slice "'a list"

fun len :: "'a slice \<Rightarrow> nat" where
  "len NilSlice = 0"
| "len (Slice xs) = length xs"

section \<open>Errors\<close>

text \<open>
  Errors are values of \<open>github.com/pkg/errors\<close>. \<open>errors.New\<close> builds a fundamental
  error from a message; \<open>errors.Wrap(err, message)\<close> returns nil when \<open>err\<close> is nil and
  otherwise an error that keeps \<open>err\<close> as its cause and whose \<open>Error()\<close> text is
  \<open>message + ": " + err.Error()\<close>. A Go value of type \<open>error\<close> may be nil: it is an
  \<open>error option\<close>.
\<close>

datatype error = fundamental string | withMessage error string

fun Error :: "error \<Rightarrow> string" where
  "Error (fundamental s) = s"
| "Error (withMessage cause msg) = msg @ '': '' @ Error cause"

fun Wrap :: "error option \<Rightarrow> string \<Rightarrow> error option" where
  "Wrap None message = None"
| "Wrap (Some err) message = Some (withMessage err message)"

section \<open>Raw logs and typed log records\<close>

text \<open>go-ethereum's \<open>types.Log\<close>: the raw log with its block and transaction provenance.\<close>

record Log =
  Address :: Address
  Topics :: "Hash list"
  Data :: "byte list"
  BlockNumber :: uint64
  TxHash :: Hash
  TxIndex :: uint
  BlockHash :: Hash
  Index :: uint
  Removed :: bool

definition zero_Log :: Log where
  "zero_Log = \<lparr>Address = 0, Topics = [], Data = [], BlockNumber = 0, TxHash = 0,
     TxIndex = 0, BlockHash = 0, Index = 0, Removed = False\<rparr>"

text \<open>
  \<open>LogNewRound\<close> and \<open>LogAnswerUpdated\<close> embed \<open>types.Log\<close>: in Go the embedded struct
  is a field named \<open>Log\<close>.
\<close>

record LogNewRound =
  Log :: Log
  RoundId :: bigInt
  StartedBy :: Address
  StartedAt :: bigInt

record LogAnswerUpdated =
  Log :: Log
  Current :: bigInt
  RoundId :: bigInt
  UpdatedAt :: bigInt

definition zero_LogNewRound :: LogNewRound where
  "zero_LogNewRound = \<lparr>LogNewRound.Log = zero_Log, LogNewRound.RoundId = None,
     LogNewRound.StartedBy = 0, LogNewRound.StartedAt = None\<rparr>"

definition zero_LogAnswerUpdated :: LogAnswerUpdated where
  "zero_LogAnswerUpdated = \<lparr>LogAnswerUpdated.Log = zero_Log, LogAnswerUpdated.Current = None,
     LogAnswerUpdated.RoundId = None, LogAnswerUpdated.UpdatedAt = None\<rparr>"

text \<open>
  The values of the registry have type \<open>interface{}\<close> and are pointers to one of the two
  record shapes; the same tagged union is what a listener receives.
\<close>

datatype DecodedLog = NewRoundLog LogNewRound | AnswerUpdatedLog LogAnswerUpdated

text \<open>
  \<open>fluxAggregatorLogTypes\<close>: the map literal of the source, from topic hash to a zero-valued
  prototype. The two keys are the package variables \<open>AggregatorNewRoundLogTopic20191220\<close>
  and \<open>AggregatorAnswerUpdatedLogTopic20191220\<close>, whose values come from the contract's
  ABI; they are parameters here. In a Go map literal with equal non-constant keys the later
  entry wins, as in the map update below.
\<close>

definition fluxAggregatorLogTypes :: "Hash \<Rightarrow> Hash \<Rightarrow> (Hash \<rightharpoonup> DecodedLog)" where
  "fluxAggregatorLogTypes AggregatorNewRoundLogTopic20191220 AggregatorAnswerUpdatedLogTopic20191220 =
     [AggregatorNewRoundLogTopic20191220 \<mapsto> NewRoundLog zero_LogNewRound,
      AggregatorAnswerUpdatedLogTopic20191220 \<mapsto> AnswerUpdatedLog zero_LogAnswerUpdated]"

section \<open>Construction of the contract handle\<close>

definition FluxAggregatorName :: string where
  "FluxAggregatorName = ''FluxAggregator''"

text \<open>
  A Go call returns or panics. A panic while the package variables are initialised ends the
  process before \<open>main\<close> runs.
\<close>

datatype 'a outcome = Panic string | Returns 'a

text \<open>
  Modelled from the spec: \<open>eth.MustGetV6ContractEventID\<close> is called by this file and
  defined outside it. The spec gives it as
  \<open>LookupEventTopicHash(contractType, eventName) -> 32-byte hash | fatal if absent\<close>, and
  the comments of the source say "Eagerly fails if not found". The codec's known events are
  a table from contract name and event name to the topic hash.
\<close>

definition MustGetV6ContractEventID :: "(string \<Rightarrow> string \<rightharpoonup> Hash) \<Rightarrow> string \<Rightarrow> string \<Rightarrow> Hash outcome" where
  "MustGetV6ContractEventID events name eventName =
     (case events name eventName of
        None \<Rightarrow> Panic (''event '' @ eventName @ '' not found in contract '' @ name)
      | Some eventID \<Rightarrow> Returns eventID)"

text \<open>
  The package variables \<open>AggregatorNewRoundLogTopic20191220\<close> and
  \<open>AggregatorAnswerUpdatedLogTopic20191220\<close>, initialised in the order of their
  declaration when the program starts.
\<close>

definition package_init :: "(string \<Rightarrow> string \<rightharpoonup> Hash) \<Rightarrow> (Hash \<times> Hash) outcome" where
  "package_init events =
     (case MustGetV6ContractEventID events ''FluxAggregator'' ''NewRound'' of
        Panic m \<Rightarrow> Panic m
      | Returns newRoundTopic \<Rightarrow>
          (case MustGetV6ContractEventID events ''FluxAggregator'' ''AnswerUpdated'' of
             Panic m \<Rightarrow> Panic m
           | Returns answerUpdatedTopic \<Rightarrow> Returns (newRoundTopic, answerUpdatedTopic)))"

text \<open>
  The handle \<open>fluxAggregator\<close>. \<open>eth.GetV6ContractCodec\<close> and \<open>NewConnectedContract\<close>
  are defined outside this file and are parameters of \<open>NewFluxAggregator\<close>; the codec, the
  client and the broadcaster are values of types the file does not look into.
\<close>

record ('cc, 'e) fluxAggregator =
  ConnectedContract :: 'cc
  ethClient :: 'e
  address :: Address

definition NewFluxAggregator ::
  "(string \<Rightarrow> error + 'c) \<Rightarrow> ('c \<Rightarrow> Address \<Rightarrow> 'e \<Rightarrow> 'b \<Rightarrow> 'cc) \<Rightarrow> Address \<Rightarrow> 'e \<Rightarrow> 'b
     \<Rightarrow> error + ('cc, 'e) fluxAggregator" where
  "NewFluxAggregator GetV6ContractCodec NewConnectedContract address' ethClient' logBroadcaster =
     (case GetV6ContractCodec FluxAggregatorName of
        Inl err \<Rightarrow> Inl err
      | Inr codec \<Rightarrow>
          (let connectedContract = NewConnectedContract codec address' ethClient' logBroadcaster
           in Inr \<lparr>ConnectedContract = connectedContract, ethClient = ethClient', address = address'\<rparr>))"

text \<open>
  A process that creates a handle: the package is initialised first, and only then can
  \<open>NewFluxAggregator\<close> be called.
\<close>

definition start_and_NewFluxAggregator ::
  "(string \<Rightarrow> string \<rightharpoonup> Hash) \<Rightarrow> (string \<Rightarrow> error + 'c) \<Rightarrow> ('c \<Rightarrow> Address \<Rightarrow> 'e \<Rightarrow> 'b \<Rightarrow> 'cc)
     \<Rightarrow> Address \<Rightarrow> 'e \<Rightarrow> 'b \<Rightarrow> (error + ('cc, 'e) fluxAggregator) outcome" where
  "start_and_NewFluxAggregator events GetV6ContractCodec NewConnectedContract address' ethClient' logBroadcaster =
     (case package_init events of
        Panic m \<Rightarrow> Panic m
      | Returns topics \<Rightarrow>
          Returns (NewFluxAggregator GetV6ContractCodec NewConnectedContract address' ethClient' logBroadcaster))"

section \<open>The log pipeline\<close>

text \<open>
  The ABI codec decodes the topics and data of a raw log into a record of the shape it is
  given, or fails. It is an external collaborator
  (\<open>DecodeLog(eventSignature, rawLog, &outShape) -> error\<close>), with one decoding function per
  record shape.
\<close>

record codec =
  DecodeLogNewRound :: "Log \<Rightarrow> LogNewRound \<Rightarrow> error + LogNewRound"
  DecodeLogAnswerUpdated :: "Log \<Rightarrow> LogAnswerUpdated \<Rightarrow> error + LogAnswerUpdated"

fun DecodeLog :: "codec \<Rightarrow> Log \<Rightarrow> DecodedLog \<Rightarrow> error + DecodedLog" where
  "DecodeLog c rawLog (NewRoundLog out) =
     (case DecodeLogNewRound c rawLog out of Inl err \<Rightarrow> Inl err | Inr r \<Rightarrow> Inr (NewRoundLog r))"
| "DecodeLog c rawLog (AnswerUpdatedLog out) =
     (case DecodeLogAnswerUpdated c rawLog out of Inl err \<Rightarrow> Inl err | Inr r \<Rightarrow> Inr (AnswerUpdatedLog r))"

fun withLog :: "Log \<Rightarrow> DecodedLog \<Rightarrow> DecodedLog" where
  "withLog rawLog (NewRoundLog r) = NewRoundLog (r\<lparr>LogNewRound.Log := rawLog\<rparr>)"
| "withLog rawLog (AnswerUpdatedLog r) = AnswerUpdatedLog (r\<lparr>LogAnswerUpdated.Log := rawLog\<rparr>)"

text \<open>
  What the downstream listener has been handed so far, and the decoding errors reported so
  far. The listener passed to \<open>SubscribeToLogs\<close> is this state.
\<close>

record sink =
  delivered :: "DecodedLog list"
  reported :: "error list"

text \<open>
  Modelled from the spec: \<open>log.NewDecodingLogListener\<close> and the handling of a raw log by
  the listener it builds are defined outside this file. Section 4.3 of the spec: take the
  first topic of the raw log and look it up in the registry; if it is absent, drop the log
  without error; if it is present, take a fresh copy of the prototype, decode the topics and
  data into it with the codec and deliver the record, with the raw log kept unchanged as its
  provenance; a decoding failure is reported for that log and nothing is delivered. A log
  without topics has no first topic to look up and is dropped.
\<close>

definition NewDecodingLogListener :: "codec \<Rightarrow> (Hash \<rightharpoonup> DecodedLog) \<Rightarrow> Log \<Rightarrow> sink \<Rightarrow> sink" where
  "NewDecodingLogListener c logTypes rawLog s =
     (case Topics rawLog of
        [] \<Rightarrow> s
      | eventID # _ \<Rightarrow>
          (case logTypes eventID of
             None \<Rightarrow> s
           | Some prototype \<Rightarrow>
               (case DecodeLog c rawLog prototype of
                  Inl err \<Rightarrow> s\<lparr>reported := reported s @ [err]\<rparr>
                | Inr decoded \<Rightarrow> s\<lparr>delivered := delivered s @ [withLog rawLog decoded]\<rparr>)))"

text \<open>
  \<open>SubscribeToLogs\<close> wraps the listener in the decoding listener over
  \<open>fluxAggregatorLogTypes\<close>, with the handle as the codec, and passes it to
  \<open>ConnectedContract.SubscribeToLogs\<close>. The latter is defined outside this file and is a
  parameter: it registers the listener it is given with the log broadcaster, which pushes
  every raw log of the contract to it, and returns the connection flag and the handle to
  unsubscribe.
\<close>

definition SubscribeToLogs ::
  "codec \<Rightarrow> Hash \<Rightarrow> Hash \<Rightarrow> ((Log \<Rightarrow> sink \<Rightarrow> sink) \<Rightarrow> bool \<times> 'u) \<Rightarrow> bool \<times> 'u" where
  "SubscribeToLogs fa AggregatorNewRoundLogTopic20191220 AggregatorAnswerUpdatedLogTopic20191220
       ConnectedContract_SubscribeToLogs =
     ConnectedContract_SubscribeToLogs
       (NewDecodingLogListener fa
          (fluxAggregatorLogTypes AggregatorNewRoundLogTopic20191220
             AggregatorAnswerUpdatedLogTopic20191220))"

section \<open>Round state and round data\<close>

record FluxAggregatorRoundData =
  RoundID :: bigInt
  Answer :: bigInt
  StartedAt :: bigInt
  UpdatedAt :: bigInt
  AnsweredInRound :: bigInt

record FluxAggregatorRoundState =
  ReportableRoundID :: uint32
  EligibleToSubmit :: bool
  LatestAnswer :: bigInt
  Timeout :: uint64
  StartedAt :: uint64
  AvailableFunds :: bigInt
  PaymentAmount :: bigInt
  OracleCount :: uint8

text \<open>The zero values \<open>FluxAggregatorRoundState{}\<close> and \<open>FluxAggregatorRoundData{}\<close>.\<close>

definition zero_FluxAggregatorRoundState :: FluxAggregatorRoundState where
  "zero_FluxAggregatorRoundState = \<lparr>ReportableRoundID = 0, EligibleToSubmit = False,
     LatestAnswer = None, Timeout = 0, FluxAggregatorRoundState.StartedAt = 0,
     AvailableFunds = None, PaymentAmount = None, OracleCount = 0\<rparr>"

definition zero_FluxAggregatorRoundData :: FluxAggregatorRoundData where
  "zero_FluxAggregatorRoundData = \<lparr>RoundID = None, Answer = None,
     FluxAggregatorRoundData.StartedAt = None, FluxAggregatorRoundData.UpdatedAt = None,
     AnsweredInRound = None\<rparr>"

text \<open>
  \<open>TimesOutAt\<close> has a value receiver and returns \<open>rs.StartedAt + rs.Timeout\<close> on
  \<open>uint64\<close>; Go's unsigned addition wraps modulo \<open>2^64\<close> and never panics, as word
  addition does.
\<close>

definition TimesOutAt :: "FluxAggregatorRoundState \<Rightarrow> uint64" where
  "TimesOutAt rs = FluxAggregatorRoundState.StartedAt rs + Timeout rs"

section \<open>The typed queries\<close>

text \<open>
  The variadic \<open>interface{}\<close> arguments of a contract call are, in this file, an oracle
  address or a \<open>uint32\<close> round id.
\<close>

datatype arg = AddressArg Address | Uint32Arg uint32

text \<open>
  \<open>ConnectedContract.Call(result, methodName, args...)\<close> is defined outside this file.
  It receives a pointer to the caller's result variable, may write to that variable, and
  returns an error or nil. It is a parameter of every query: from the content of the result
  variable, the method name and the arguments it yields the error and the content it leaves
  in the variable. A call may fail after it has written part of a result.
\<close>

type_synonym 'r Call = "'r \<Rightarrow> string \<Rightarrow> arg list \<Rightarrow> error option \<times> 'r"

definition RoundState ::
  "FluxAggregatorRoundState Call \<Rightarrow> Address \<Rightarrow> uint32 \<Rightarrow> FluxAggregatorRoundState \<times> error option" where
  "RoundState Call oracle roundID =
     (let result = zero_FluxAggregatorRoundState;
          (err, result) = Call result ''oracleRoundState'' [AddressArg oracle, Uint32Arg roundID]
      in if err \<noteq> None
         then (zero_FluxAggregatorRoundState, Wrap err ''unable to encode message call'')
         else (result, None))"

definition GetOracles :: "Address slice Call \<Rightarrow> Address slice \<times> error option" where
  "GetOracles Call =
     (let oracles = Slice [];
          (err, oracles) = Call oracles ''getOracles'' []
      in if err \<noteq> None
         then (NilSlice, Wrap err ''error calling flux aggregator getOracles'')
         else (oracles, None))"

definition LatestRoundData :: "FluxAggregatorRoundData Call \<Rightarrow> FluxAggregatorRoundData \<times> error option" where
  "LatestRoundData Call =
     (let result = zero_FluxAggregatorRoundData;
          (err, result) = Call result ''latestRoundData'' []
      in if err \<noteq> None
         then (zero_FluxAggregatorRoundData,
               Wrap err ''error calling fluxaggregator#latestRoundData - contract may have 0 rounds'')
         else (result, None))"

section \<open>Sample collaborators\<close>

text \<open>
  Concrete stand-ins for \<open>ConnectedContract.Call\<close>, used where a statement is evaluated at
  a concrete input: a call that fails with a transport error and leaves \<open>left\<close> in the
  result variable, and a call that succeeds and leaves \<open>answer\<close> there.
\<close>

definition failing_Call :: "'r \<Rightarrow> 'r Call" where
  "failing_Call left result methodName args = (Some (fundamental ''connection refused''), left)"

definition answering_Call :: "'r \<Rightarrow> 'r Call" where
  "answering_Call answer result methodName args = (None, answer)"

text \<open>
  A codec for the two events in the manner of ABI event decoding, used where a statement is
  evaluated at a concrete log. \<open>NewRound\<close> carries the round id and the starting account
  as the second and third topic and the start time as big-endian data; \<open>AnswerUpdated\<close>
  carries the answer (signed) and the round id as topics and the update time as data. A log
  with another number of topics or with no data does not decode.
\<close>

definition big_endian :: "byte list \<Rightarrow> int" where
  "big_endian bs = foldl (\<lambda>acc b. acc * 256 + uint b) 0 bs"

definition sample_codec :: codec where
  "sample_codec =
     \<lparr>DecodeLogNewRound = (\<lambda>rawLog out.
        (case Topics rawLog of
           [eventID, roundId, startedBy] \<Rightarrow>
             if Data rawLog = [] then Inl (fundamental ''abi: unmarshalling empty output'')
             else Inr (out\<lparr>LogNewRound.RoundId := Some (uint roundId),
                          LogNewRound.StartedBy := ucast startedBy,
                          LogNewRound.StartedAt := Some (big_endian (Data rawLog))\<rparr>)
         | _ \<Rightarrow> Inl (fundamental ''abi: topic/field count mismatch''))),
      DecodeLogAnswerUpdated = (\<lambda>rawLog out.
        (case Topics rawLog of
           [eventID, current, roundId] \<Rightarrow>
             if Data rawLog = [] then Inl (fundamental ''abi: unmarshalling empty output'')
             else Inr (out\<lparr>LogAnswerUpdated.Current := Some (sint current),
                          LogAnswerUpdated.RoundId := Some (uint roundId),
                          LogAnswerUpdated.UpdatedAt := Some (big_endian (Data rawLog))\<rparr>)
         | _ \<Rightarrow> Inl (fundamental ''abi: topic/field count mismatch'')))\<rparr>"

text \<open>The listener before any log has arrived.\<close>

definition empty_sink :: sink where
  "empty_sink = \<lparr>delivered = [], reported = []\<rparr>"

text \<open>
  Three raw logs for topic hashes \<open>NewRound = 1\<close> and \<open>AnswerUpdated = 2\<close>: a \<open>NewRound\<close>
  log of round 7 started by account 255 at time \<open>0x5e001234\<close>, a log tagged \<open>NewRound\<close>
  that lacks its indexed topics and its data, and a log of an event the registry does not
  know.
\<close>

definition sample_NewRound_log :: Log where
  "sample_NewRound_log = zero_Log\<lparr>Address := 99, Topics := [1, 7, 255], Data := [94, 0, 18, 52],
     BlockNumber := 1000, TxHash := 77\<rparr>"

definition truncated_NewRound_log :: Log where
  "truncated_NewRound_log = zero_Log\<lparr>Address := 99, Topics := [1], BlockNumber := 1000, TxHash := 78\<rparr>"

definition foreign_log :: Log where
  "foreign_log = zero_Log\<lparr>Address := 99, Topics := [3, 7], Data := [1], BlockNumber := 1000,
     TxHash := 79\<rparr>"

text \<open>
  A table of known events that lacks \<open>AnswerUpdated\<close>, and stand-ins for
  \<open>eth.GetV6ContractCodec\<close> and \<open>NewConnectedContract\<close>.
\<close>

definition events_without_AnswerUpdated :: "string \<Rightarrow> string \<rightharpoonup> Hash" where
  "events_without_AnswerUpdated name =
     (if name = ''FluxAggregator'' then [''NewRound'' \<mapsto> 1] else Map.empty)"

definition sample_GetV6ContractCodec :: "string \<Rightarrow> error + codec" where
  "sample_GetV6ContractCodec name =
     (if name = ''FluxAggregator'' then Inr sample_codec
      else Inl (fundamental ''contract not found''))"

definition sample_NewConnectedContract :: "codec \<Rightarrow> Address \<Rightarrow> unit \<Rightarrow> unit \<Rightarrow> codec" where
  "sample_NewConnectedContract c a e b = c"

section \<open>Theorems\<close>

subsection \<open>Round-state derivation\<close>

text \<open>
  C1. For every snapshot whose \<open>StartedAt + Timeout\<close> fits in 64 bits, \<open>TimesOutAt\<close>
  returns exactly that sum. The function takes the snapshot alone and returns a value: it
  has no other input and changes nothing.
\<close>

theorem TimesOutAt_exact:
  assumes "unat (FluxAggregatorRoundState.StartedAt rs) + unat (Timeout rs) < 2 ^ 64"
  shows "unat (TimesOutAt rs) = unat (FluxAggregatorRoundState.StartedAt rs) + unat (Timeout rs)"
  using assms by (simp add: TimesOutAt_def unat_word_ariths)

theorem TimesOutAt_exact_witness:
  "unat (FluxAggregatorRoundState.StartedAt
       (zero_FluxAggregatorRoundState\<lparr>Timeout := 600, FluxAggregatorRoundState.StartedAt := 1577000000\<rparr>))
     + unat (Timeout
       (zero_FluxAggregatorRoundState\<lparr>Timeout := 600, FluxAggregatorRoundState.StartedAt := 1577000000\<rparr>))
     < 2 ^ 64
   \<and> unat (TimesOutAt
       (zero_FluxAggregatorRoundState\<lparr>Timeout := 600, FluxAggregatorRoundState.StartedAt := 1577000000\<rparr>))
     = 1577000600"
  using TimesOutAt_exact
    [of "zero_FluxAggregatorRoundState\<lparr>Timeout := 600, FluxAggregatorRoundState.StartedAt := 1577000000\<rparr>"]
  by (simp add: zero_FluxAggregatorRoundState_def)

text \<open>
  C2 (as stated): on overflow \<open>TimesOutAt\<close> saturates to the maximum or fails. The code
  does neither: with \<open>StartedAt = 2^64 - 1\<close> and \<open>Timeout = 1\<close> the sum exceeds the
  maximum and the result is 0, not the maximum.
\<close>

theorem TimesOutAt_saturates_counterexample:
  "2 ^ 64 \<le> unat (FluxAggregatorRoundState.StartedAt
       (zero_FluxAggregatorRoundState\<lparr>Timeout := 1,
          FluxAggregatorRoundState.StartedAt := 18446744073709551615\<rparr>))
     + unat (Timeout
       (zero_FluxAggregatorRoundState\<lparr>Timeout := 1,
          FluxAggregatorRoundState.StartedAt := 18446744073709551615\<rparr>))
   \<and> TimesOutAt (zero_FluxAggregatorRoundState\<lparr>Timeout := 1,
          FluxAggregatorRoundState.StartedAt := 18446744073709551615\<rparr>) = 0
   \<and> TimesOutAt (zero_FluxAggregatorRoundState\<lparr>Timeout := 1,
          FluxAggregatorRoundState.StartedAt := 18446744073709551615\<rparr>) \<noteq> 18446744073709551615"
  by (simp add: TimesOutAt_def zero_FluxAggregatorRoundState_def)

text \<open>
  C2 (amended): for every snapshot \<open>TimesOutAt\<close> returns \<open>StartedAt + Timeout\<close> reduced
  modulo \<open>2^64\<close>: a sum beyond the maximum wraps around; nothing saturates and nothing
  fails.
\<close>

theorem TimesOutAt_wraps:
  "unat (TimesOutAt rs) =
     (unat (FluxAggregatorRoundState.StartedAt rs) + unat (Timeout rs)) mod 2 ^ 64"
  by (simp add: TimesOutAt_def unat_word_ariths)

text \<open>
  C10. Two snapshots that agree on \<open>StartedAt\<close> and \<open>Timeout\<close> have the same
  \<open>TimesOutAt\<close>, whatever their other fields hold.
\<close>

theorem TimesOutAt_noninterference:
  assumes "FluxAggregatorRoundState.StartedAt rs = FluxAggregatorRoundState.StartedAt rs'"
    and "Timeout rs = Timeout rs'"
  shows "TimesOutAt rs = TimesOutAt rs'"
  using assms by (simp add: TimesOutAt_def)

theorem TimesOutAt_noninterference_witness:
  "FluxAggregatorRoundState.StartedAt
       \<lparr>ReportableRoundID = 1, EligibleToSubmit = True, LatestAnswer = Some 42, Timeout = 600,
        FluxAggregatorRoundState.StartedAt = 1577000000, AvailableFunds = Some 10,
        PaymentAmount = Some 3, OracleCount = 5\<rparr>
     = FluxAggregatorRoundState.StartedAt
       \<lparr>ReportableRoundID = 9, EligibleToSubmit = False, LatestAnswer = None, Timeout = 600,
        FluxAggregatorRoundState.StartedAt = 1577000000, AvailableFunds = None,
        PaymentAmount = None, OracleCount = 0\<rparr>
   \<and> Timeout
       \<lparr>ReportableRoundID = 1, EligibleToSubmit = True, LatestAnswer = Some 42, Timeout = 600,
        FluxAggregatorRoundState.StartedAt = 1577000000, AvailableFunds = Some 10,
        PaymentAmount = Some 3, OracleCount = 5\<rparr>
     = Timeout
       \<lparr>ReportableRoundID = 9, EligibleToSubmit = False, LatestAnswer = None, Timeout = 600,
        FluxAggregatorRoundState.StartedAt = 1577000000, AvailableFunds = None,
        PaymentAmount = None, OracleCount = 0\<rparr>
   \<and> TimesOutAt
       \<lparr>ReportableRoundID = 1, EligibleToSubmit = True, LatestAnswer = Some 42, Timeout = 600,
        FluxAggregatorRoundState.StartedAt = 1577000000, AvailableFunds = Some 10,
        PaymentAmount = Some 3, OracleCount = 5\<rparr>
     = TimesOutAt
       \<lparr>ReportableRoundID = 9, EligibleToSubmit = False, LatestAnswer = None, Timeout = 600,
        FluxAggregatorRoundState.StartedAt = 1577000000, AvailableFunds = None,
        PaymentAmount = None, OracleCount = 0\<rparr>"
  using TimesOutAt_noninterference
    [of "\<lparr>ReportableRoundID = 1, EligibleToSubmit = True, LatestAnswer = Some 42, Timeout = 600,
        FluxAggregatorRoundState.StartedAt = 1577000000, AvailableFunds = Some 10,
        PaymentAmount = Some 3, OracleCount = 5\<rparr>"
        "\<lparr>ReportableRoundID = 9, EligibleToSubmit = False, LatestAnswer = None, Timeout = 600,
        FluxAggregatorRoundState.StartedAt = 1577000000, AvailableFunds = None,
        PaymentAmount = None, OracleCount = 0\<rparr>"]
  by simp

subsection \<open>Errors of the typed queries\<close>

lemma Wrap_Some_iff: "Wrap err message = Some e \<longleftrightarrow> (\<exists>c. err = Some c \<and> e = withMessage c message)"
  by (cases err) auto

lemma RoundState_failure:
  "fst (Call zero_FluxAggregatorRoundState ''oracleRoundState'' [AddressArg oracle, Uint32Arg roundID]) = Some c
   \<Longrightarrow> RoundState Call oracle roundID =
         (zero_FluxAggregatorRoundState, Some (withMessage c ''unable to encode message call''))"
  by (auto simp: RoundState_def Let_def split: prod.splits)

lemma GetOracles_failure:
  "fst (Call (Slice []) ''getOracles'' []) = Some c
   \<Longrightarrow> GetOracles Call =
         (NilSlice, Some (withMessage c ''error calling flux aggregator getOracles''))"
  by (auto simp: GetOracles_def Let_def split: prod.splits)

lemma LatestRoundData_failure:
  "fst (Call zero_FluxAggregatorRoundData ''latestRoundData'' []) = Some c
   \<Longrightarrow> LatestRoundData Call =
         (zero_FluxAggregatorRoundData,
          Some (withMessage c ''error calling fluxaggregator#latestRoundData - contract may have 0 rounds''))"
  by (auto simp: LatestRoundData_def Let_def split: prod.splits)

lemma RoundState_error_cases:
  "snd (RoundState Call oracle roundID) = Some e \<Longrightarrow>
   \<exists>c. fst (Call zero_FluxAggregatorRoundState ''oracleRoundState'' [AddressArg oracle, Uint32Arg roundID]) = Some c
      \<and> e = withMessage c ''unable to encode message call''"
  by (auto simp: RoundState_def Let_def Wrap_Some_iff split: prod.splits if_splits)

lemma GetOracles_error_cases:
  "snd (GetOracles Call) = Some e \<Longrightarrow>
   \<exists>c. fst (Call (Slice []) ''getOracles'' []) = Some c
      \<and> e = withMessage c ''error calling flux aggregator getOracles''"
  by (auto simp: GetOracles_def Let_def Wrap_Some_iff split: prod.splits if_splits)

lemma LatestRoundData_error_cases:
  "snd (LatestRoundData Call) = Some e \<Longrightarrow>
   \<exists>c. fst (Call zero_FluxAggregatorRoundData ''latestRoundData'' []) = Some c
      \<and> e = withMessage c ''error calling fluxaggregator#latestRoundData - contract may have 0 rounds''"
  by (auto simp: LatestRoundData_def Let_def Wrap_Some_iff split: prod.splits if_splits)


text \<open>
  The sibling queries name their operation: whenever \<open>GetOracles\<close> or
  \<open>LatestRoundData\<close> returns an error, its message contains the contract method's name
  and ends with the message of the cause.
\<close>

lemma GetOracles_error_names_operation:
  assumes "snd (GetOracles Call) = Some e"
  shows "sublist ''getOracles'' (Error e)"
proof -
  from assms obtain c where e: "e = withMessage c ''error calling flux aggregator getOracles''"
    using GetOracles_error_cases by blast
  have "Error e = ''error calling flux aggregator '' @ ''getOracles'' @ ('': '' @ Error c)"
    by (simp add: e)
  then show ?thesis by (simp only: sublist_appendI)
qed

lemma LatestRoundData_error_names_operation:
  assumes "snd (LatestRoundData Call) = Some e"
  shows "sublist ''latestRoundData'' (Error e)"
proof -
  from assms obtain c where e: "e = withMessage c
      ''error calling fluxaggregator#latestRoundData - contract may have 0 rounds''"
    using LatestRoundData_error_cases by blast
  have "Error e = ''error calling fluxaggregator#'' @ ''latestRoundData''
      @ ('' - contract may have 0 rounds: '' @ Error c)"
    by (simp add: e)
  then show ?thesis by (simp only: sublist_appendI)
qed

lemma query_errors_keep_cause:
  "snd (RoundState Call1 oracle roundID) = Some e \<Longrightarrow>
     \<exists>c. Error e = ''unable to encode message call: '' @ Error c"
  "snd (GetOracles Call2) = Some e \<Longrightarrow>
     \<exists>c. Error e = ''error calling flux aggregator getOracles: '' @ Error c"
  "snd (LatestRoundData Call3) = Some e \<Longrightarrow>
     \<exists>c. Error e = ''error calling fluxaggregator#latestRoundData - contract may have 0 rounds: ''
       @ Error c"
  by (auto dest!: RoundState_error_cases GetOracles_error_cases LatestRoundData_error_cases)

text \<open>
  C3. Every failing query should return an error whose message names the logical
  operation. \<open>RoundState\<close> does not: when the call of \<open>oracleRoundState\<close> for oracle 0
  and round 1 fails with "connection refused", the message returned is
  "unable to encode message call: connection refused", which mentions neither
  \<open>oracleRoundState\<close> nor any other name of the query.
\<close>

theorem RoundState_error_omits_operation:
  "map_option Error (snd (RoundState (failing_Call zero_FluxAggregatorRoundState) 0 1))
     = Some ''unable to encode message call: connection refused''
   \<and> \<not> sublist ''oracleRoundState'' ''unable to encode message call: connection refused''
   \<and> \<not> sublist ''RoundState'' ''unable to encode message call: connection refused''"
  by (simp add: RoundState_def failing_Call_def sublist_Cons_right)

text \<open>
  C8. Whenever \<open>LatestRoundData\<close> returns an error, the message of that error contains
  the hint "contract may have 0 rounds".
\<close>

theorem LatestRoundData_error_keeps_hint:
  assumes "snd (LatestRoundData Call) = Some e"
  shows "sublist ''contract may have 0 rounds'' (Error e)"
proof -
  from assms obtain c where e: "e = withMessage c
      ''error calling fluxaggregator#latestRoundData - contract may have 0 rounds''"
    using LatestRoundData_error_cases by blast
  have "Error e = ''error calling fluxaggregator#latestRoundData - ''
      @ ''contract may have 0 rounds'' @ ('': '' @ Error c)"
    by (simp add: e)
  then show ?thesis by (simp only: sublist_appendI)
qed

theorem LatestRoundData_error_keeps_hint_witness:
  "snd (LatestRoundData (failing_Call zero_FluxAggregatorRoundData))
     = Some (withMessage (fundamental ''connection refused'')
         ''error calling fluxaggregator#latestRoundData - contract may have 0 rounds'')
   \<and> sublist ''contract may have 0 rounds''
       (Error (withMessage (fundamental ''connection refused'')
         ''error calling fluxaggregator#latestRoundData - contract may have 0 rounds''))"
proof -
  have h: "snd (LatestRoundData (failing_Call zero_FluxAggregatorRoundData))
     = Some (withMessage (fundamental ''connection refused'')
         ''error calling fluxaggregator#latestRoundData - contract may have 0 rounds'')"
    by (simp add: LatestRoundData_def failing_Call_def)
  show ?thesis using h LatestRoundData_error_keeps_hint [OF h] by simp
qed

text \<open>
  C9. Whenever one of the three queries returns an error, the value returned with it is the
  zero record (\<open>RoundState\<close>, \<open>LatestRoundData\<close>) or the nil slice (\<open>GetOracles\<close>),
  whatever the failed call had written to the result variable.
\<close>

theorem queries_return_zero_value_with_error:
  "(snd (RoundState Call1 oracle roundID) \<noteq> None
      \<longrightarrow> fst (RoundState Call1 oracle roundID) = zero_FluxAggregatorRoundState)
   \<and> (snd (LatestRoundData Call2) \<noteq> None
      \<longrightarrow> fst (LatestRoundData Call2) = zero_FluxAggregatorRoundData)
   \<and> (snd (GetOracles Call3) \<noteq> None \<longrightarrow> fst (GetOracles Call3) = NilSlice)"
  by (auto simp: RoundState_def LatestRoundData_def GetOracles_def Let_def split: prod.splits)

theorem queries_return_zero_value_with_error_witness:
  "snd (RoundState (failing_Call (zero_FluxAggregatorRoundState\<lparr>Timeout := 5\<rparr>)) 7 1) \<noteq> None
   \<and> fst (RoundState (failing_Call (zero_FluxAggregatorRoundState\<lparr>Timeout := 5\<rparr>)) 7 1)
       = zero_FluxAggregatorRoundState
   \<and> snd (LatestRoundData (failing_Call (zero_FluxAggregatorRoundData\<lparr>Answer := Some 3\<rparr>))) \<noteq> None
   \<and> fst (LatestRoundData (failing_Call (zero_FluxAggregatorRoundData\<lparr>Answer := Some 3\<rparr>)))
       = zero_FluxAggregatorRoundData
   \<and> snd (GetOracles (failing_Call (Slice [7]))) \<noteq> None
   \<and> fst (GetOracles (failing_Call (Slice [7]))) = NilSlice"
proof -
  have h1: "snd (RoundState (failing_Call (zero_FluxAggregatorRoundState\<lparr>Timeout := 5\<rparr>)) 7 1) \<noteq> None"
    by (simp add: RoundState_def failing_Call_def)
  have h2: "snd (LatestRoundData (failing_Call (zero_FluxAggregatorRoundData\<lparr>Answer := Some 3\<rparr>))) \<noteq> None"
    by (simp add: LatestRoundData_def failing_Call_def)
  have h3: "snd (GetOracles (failing_Call (Slice [7]))) \<noteq> None"
    by (simp add: GetOracles_def failing_Call_def)
  show ?thesis
    using h1 h2 h3 queries_return_zero_value_with_error
      [of "failing_Call (zero_FluxAggregatorRoundState\<lparr>Timeout := 5\<rparr>)" 7 1
          "failing_Call (zero_FluxAggregatorRoundData\<lparr>Answer := Some 3\<rparr>)"
          "failing_Call (Slice [7])"]
    by blast
qed

subsection \<open>The oracle list\<close>

text \<open>
  C7. Against a contract with zero oracles the call of \<open>getOracles\<close> succeeds and leaves
  a made slice without elements in the result variable (the slice \<open>GetOracles\<close> made, or
  one the decoder made). \<open>GetOracles\<close> then returns that slice and no error: a slice of
  length 0 that is not nil.
\<close>

theorem GetOracles_zero_oracles:
  assumes "Call (Slice []) ''getOracles'' [] = (None, Slice [])"
  shows "GetOracles Call = (Slice [], None)
    \<and> fst (GetOracles Call) \<noteq> NilSlice \<and> len (fst (GetOracles Call)) = 0"
  using assms by (simp add: GetOracles_def)

theorem GetOracles_zero_oracles_witness:
  "answering_Call (Slice []) (Slice []) ''getOracles'' [] = (None, Slice [])
   \<and> GetOracles (answering_Call (Slice [])) = (Slice [], None)
   \<and> fst (GetOracles (answering_Call (Slice []))) \<noteq> NilSlice
   \<and> len (fst (GetOracles (answering_Call (Slice [])))) = 0"
proof -
  have h: "answering_Call (Slice []) (Slice []) ''getOracles'' [] = (None, Slice [])"
    by (simp add: answering_Call_def)
  show ?thesis using h GetOracles_zero_oracles [of "answering_Call (Slice [])", OF h] by simp
qed


subsection \<open>Construction\<close>

text \<open>
  C6. If \<open>NewRound\<close> or \<open>AnswerUpdated\<close> is absent from the known events of the
  FluxAggregator codec, a process that creates a handle panics while the package is
  initialised: it ends there, and \<open>NewFluxAggregator\<close> returns neither a handle nor an
  error.
\<close>

theorem missing_event_signature_is_fatal:
  assumes "events ''FluxAggregator'' ''NewRound'' = None
    \<or> events ''FluxAggregator'' ''AnswerUpdated'' = None"
  shows "(\<exists>m. start_and_NewFluxAggregator events GetV6ContractCodec NewConnectedContract
              address' ethClient' logBroadcaster = Panic m)
    \<and> (\<forall>r. start_and_NewFluxAggregator events GetV6ContractCodec NewConnectedContract
              address' ethClient' logBroadcaster \<noteq> Returns r)"
  using assms
  by (auto simp: start_and_NewFluxAggregator_def package_init_def MustGetV6ContractEventID_def
      split: option.splits)

theorem missing_event_signature_is_fatal_witness:
  "events_without_AnswerUpdated ''FluxAggregator'' ''AnswerUpdated'' = None
   \<and> start_and_NewFluxAggregator events_without_AnswerUpdated sample_GetV6ContractCodec
        sample_NewConnectedContract 99 () ()
       = Panic ''event AnswerUpdated not found in contract FluxAggregator''"
proof -
  have h: "events_without_AnswerUpdated ''FluxAggregator'' ''NewRound'' = None
    \<or> events_without_AnswerUpdated ''FluxAggregator'' ''AnswerUpdated'' = None"
    by (simp add: events_without_AnswerUpdated_def)
  show ?thesis
    using missing_event_signature_is_fatal
      [of events_without_AnswerUpdated sample_GetV6ContractCodec sample_NewConnectedContract
          99 "()" "()", OF h]
    by (simp add: start_and_NewFluxAggregator_def package_init_def MustGetV6ContractEventID_def
        events_without_AnswerUpdated_def)
qed

subsection \<open>The log pipeline\<close>

lemma dom_fluxAggregatorLogTypes:
  "dom (fluxAggregatorLogTypes newRoundTopic answerUpdatedTopic) = {newRoundTopic, answerUpdatedTopic}"
  by (auto simp: fluxAggregatorLogTypes_def)

lemma SubscribeToLogs_listener:
  "SubscribeToLogs fa newRoundTopic answerUpdatedTopic subscribe =
     subscribe (NewDecodingLogListener fa (fluxAggregatorLogTypes newRoundTopic answerUpdatedTopic))"
  by (simp add: SubscribeToLogs_def)

text \<open>
  C4. The listener that \<open>SubscribeToLogs\<close> registers leaves the downstream listener as it
  was when the first topic of the raw log is not a key of the registry: nothing is delivered
  and no error is reported.
\<close>

theorem unregistered_topic_dropped:
  assumes "Topics rawLog = eventID # topics"
    and "eventID \<notin> dom (fluxAggregatorLogTypes newRoundTopic answerUpdatedTopic)"
  shows "NewDecodingLogListener fa (fluxAggregatorLogTypes newRoundTopic answerUpdatedTopic) rawLog s = s"
  using assms by (auto simp: NewDecodingLogListener_def split: option.splits)

theorem unregistered_topic_dropped_witness:
  "Topics foreign_log = 3 # [7]
   \<and> 3 \<notin> dom (fluxAggregatorLogTypes 1 2)
   \<and> NewDecodingLogListener sample_codec (fluxAggregatorLogTypes 1 2) foreign_log empty_sink
       = \<lparr>delivered = [], reported = []\<rparr>"
proof -
  have h1: "Topics foreign_log = 3 # [7]"
    by (simp add: foreign_log_def zero_Log_def)
  have h2: "(3 :: Hash) \<notin> dom (fluxAggregatorLogTypes 1 2)"
    by (simp add: dom_fluxAggregatorLogTypes)
  show ?thesis
    using h1 h2 unregistered_topic_dropped [OF h1 h2, of sample_codec empty_sink]
    by (simp add: empty_sink_def)
qed

text \<open>
  C5 (as stated): every raw log whose first topic is the \<open>NewRound\<close> hash leads to one
  delivered record. A log tagged \<open>NewRound\<close> that the codec cannot decode does not: nothing
  is delivered and the decoding error is reported.
\<close>

theorem NewRound_log_delivered_counterexample:
  "Topics truncated_NewRound_log = [1]
   \<and> fluxAggregatorLogTypes 1 2 1 = Some (NewRoundLog zero_LogNewRound)
   \<and> NewDecodingLogListener sample_codec (fluxAggregatorLogTypes 1 2) truncated_NewRound_log empty_sink
       = \<lparr>delivered = [], reported = [fundamental ''abi: topic/field count mismatch'']\<rparr>"
  by (simp add: NewDecodingLogListener_def fluxAggregatorLogTypes_def truncated_NewRound_log_def
      zero_Log_def sample_codec_def empty_sink_def)

text \<open>
  C5 (amended): when the first topic of a raw log is the \<open>NewRound\<close> hash (which differs
  from the \<open>AnswerUpdated\<close> hash) and the codec decodes the topics and data of the log into
  a fresh \<open>LogNewRound\<close>, the listener is handed exactly one more record: the decoded
  \<open>LogNewRound\<close> with the raw log, unchanged, as its \<open>Log\<close>. No error is reported.
\<close>

theorem NewRound_log_decoded_and_delivered:
  assumes "newRoundTopic \<noteq> answerUpdatedTopic"
    and "Topics rawLog = newRoundTopic # topics"
    and "DecodeLogNewRound fa rawLog zero_LogNewRound = Inr decoded"
  shows "NewDecodingLogListener fa (fluxAggregatorLogTypes newRoundTopic answerUpdatedTopic) rawLog s
    = s\<lparr>delivered := delivered s @ [NewRoundLog (decoded\<lparr>LogNewRound.Log := rawLog\<rparr>)]\<rparr>"
  using assms by (simp add: NewDecodingLogListener_def fluxAggregatorLogTypes_def)

theorem NewRound_log_decoded_and_delivered_witness:
  "(1 :: Hash) \<noteq> 2
   \<and> Topics sample_NewRound_log = 1 # [7, 255]
   \<and> DecodeLogNewRound sample_codec sample_NewRound_log zero_LogNewRound
       = Inr \<lparr>LogNewRound.Log = zero_Log, LogNewRound.RoundId = Some 7, LogNewRound.StartedBy = 255,
              LogNewRound.StartedAt = Some 1577062964\<rparr>
   \<and> NewDecodingLogListener sample_codec (fluxAggregatorLogTypes 1 2) sample_NewRound_log empty_sink
       = \<lparr>delivered = [NewRoundLog \<lparr>LogNewRound.Log = sample_NewRound_log, LogNewRound.RoundId = Some 7,
              LogNewRound.StartedBy = 255, LogNewRound.StartedAt = Some 1577062964\<rparr>],
          reported = []\<rparr>"
proof -
  have h1: "(1 :: Hash) \<noteq> 2" by simp
  have h2: "Topics sample_NewRound_log = 1 # [7, 255]"
    by (simp add: sample_NewRound_log_def zero_Log_def)
  have h3: "DecodeLogNewRound sample_codec sample_NewRound_log zero_LogNewRound
       = Inr \<lparr>LogNewRound.Log = zero_Log, LogNewRound.RoundId = Some 7, LogNewRound.StartedBy = 255,
              LogNewRound.StartedAt = Some 1577062964\<rparr>"
    by (simp add: sample_codec_def sample_NewRound_log_def zero_Log_def zero_LogNewRound_def
        big_endian_def)
  show ?thesis
    using h1 h2 h3 NewRound_log_decoded_and_delivered [OF h1 h2 h3, of empty_sink]
    by (simp add: empty_sink_def)
qed


end
